theory Spec2Isabelle
  imports Complex_Main "HOL-Library.Word" "HOL-Library.Sublist"
begin

section \<open>JavaScript values used by \<open>openAIModelToDLLM\<close>\<close>

text \<open>
  A JavaScript string is a finite sequence of UTF-16 code units; \<open>length\<close>,
  \<open>startsWith\<close>, \<open>slice\<close>, \<open>replaceAll\<close> and \<open>trim\<close> all work on code units.
  The literals of the source are ASCII, so \<open>utf16\<close> of a HOL string literal is the
  JavaScript literal with the same text.
\<close>

type_synonym code_unit = "16 word"
type_synonym jsstring = "code_unit list"

definition utf16 :: "string \<Rightarrow> jsstring" where
  "utf16 s = map (\<lambda>c. of_nat (of_char c)) s"

definition hyphen :: code_unit where
  "hyphen = 0x2D"

definition space :: code_unit where
  "space = 0x20"

text \<open>
  \<open>String.prototype.trim\<close> removes the code units of the ECMAScript productions
  WhiteSpace (TAB, VT, FF, ZWNBSP and the Unicode space separators) and LineTerminator
  (LF, CR, LS, PS) from both ends.
\<close>

definition isWhiteSpace :: "code_unit \<Rightarrow> bool" where
  "isWhiteSpace c \<longleftrightarrow>
     c = 0x0009 \<or> c = 0x000A \<or> c = 0x000B \<or> c = 0x000C \<or> c = 0x000D \<or>
     c = 0x0020 \<or> c = 0x00A0 \<or> c = 0x1680 \<or> (0x2000 \<le> c \<and> c \<le> 0x200A) \<or>
     c = 0x2028 \<or> c = 0x2029 \<or> c = 0x202F \<or> c = 0x205F \<or> c = 0x3000 \<or>
     c = 0xFEFF"

definition trim :: "jsstring \<Rightarrow> jsstring" where
  "trim s = rev (dropWhile isWhiteSpace (rev (dropWhile isWhiteSpace s)))"

text \<open>\<open>s.startsWith(p)\<close>: the first \<open>p.length\<close> code units of \<open>s\<close> are \<open>p\<close>.\<close>

definition startsWith :: "jsstring \<Rightarrow> jsstring \<Rightarrow> bool" where
  "startsWith s p \<longleftrightarrow> take (length p) s = p"

text \<open>\<open>s.slice(n)\<close> for a start index \<open>n \<ge> 0\<close> (here always a \<open>length\<close>); an index
  past the end gives the empty string.\<close>

definition slice :: "jsstring \<Rightarrow> nat \<Rightarrow> jsstring" where
  "slice s n = drop n s"

text \<open>\<open>s.replaceAll(a, b)\<close> where pattern and replacement are one code unit each,
  as in the only call of the source, \<open>replaceAll('-', ' ')\<close>.\<close>

definition replaceAll :: "jsstring \<Rightarrow> code_unit \<Rightarrow> code_unit \<Rightarrow> jsstring" where
  "replaceAll s a b = map (\<lambda>c. if c = a then b else c) s"

text \<open>
  \<open>Math.round\<close>: the nearest integer, a tie going up. The source applies it to
  \<open>base.context / 8\<close>; a division of an integer-valued double by a power of two is
  exact, so the real quotient is the double the source rounds.
\<close>

definition Math_round :: "real \<Rightarrow> int" where
  "Math_round x = \<lfloor>x + 1 / 2\<rfloor>"

text \<open>\<open>xs[i]\<close>: \<open>undefined\<close> (here \<open>None\<close>) outside the array.\<close>

definition js_index :: "'a list \<Rightarrow> int \<Rightarrow> 'a option" where
  "js_index xs i = (if 0 \<le> i \<and> i < int (length xs) then Some (xs ! nat i) else None)"

text \<open>Reading a property of \<open>undefined\<close> throws a \<open>TypeError\<close>.\<close>

datatype js_error = TypeError

section \<open>The data of the source\<close>

text \<open>
  The entries of \<open>knownBases\<close> have the fields \<open>id\<close>, \<open>label\<close>, \<open>context\<close> and
  \<open>description\<close>. Field names that several object types of the source share
  (\<open>id\<close>, \<open>label\<close>, \<open>created\<close>, \<open>description\<close>) carry the name of their type here.
\<close>

record KnownBase =
  base_id :: jsstring
  base_label :: jsstring
  base_context :: int
  base_description :: jsstring

text \<open>
  \<open>OpenAI.Wire.Models.ModelDescription\<close> and \<open>DModelSource\<close> are declared outside
  this file; the function reads \<open>model.id\<close>, \<open>model.created\<close> and \<open>source.id\<close> only.
  Whatever else the two objects carry is the extension part of the records.
\<close>

record ModelDescription =
  model_id :: jsstring
  model_created :: int

record DModelSource =
  source_id :: jsstring

record LLMOptionsOpenAI =
  llmRef :: jsstring
  llmTemperature :: real
  llmResponseTokens :: int

text \<open>The result, \<open>DLLM & { options: LLMOptionsOpenAI }\<close>; \<open>dllm_source\<close> is the
  field \<open>_source\<close>.\<close>

record 's DLLM =
  dllm_id :: jsstring
  dllm_label :: jsstring
  dllm_created :: int
  dllm_description :: jsstring
  tags :: "jsstring list"
  contextTokens :: int
  hidden :: bool
  sId :: jsstring
  dllm_source :: "'s DModelSource_scheme"
  options :: LLMOptionsOpenAI

definition knownBases :: "KnownBase list" where
  "knownBases =
    [ \<lparr> base_id = utf16 ''gpt-4-32k'',
        base_label = utf16 ''GPT-4-32'',
        base_context = 32768,
        base_description = utf16 ''Largest context window for big thinking'' \<rparr>,
      \<lparr> base_id = utf16 ''gpt-4'',
        base_label = utf16 ''GPT-4'',
        base_context = 8192,
        base_description = utf16 ''Insightful, big thinker, slower, pricey'' \<rparr>,
      \<lparr> base_id = utf16 ''gpt-3.5-turbo'',
        base_label = utf16 ''3.5-Turbo'',
        base_context = 4097,
        base_description = utf16 ''Fair speed and smarts'' \<rparr>,
      \<lparr> base_id = utf16 '''',
        base_label = utf16 ''?:'',
        base_context = 4096,
        base_description = utf16 ''Unknown, please let us know the ID'' \<rparr> ]"

section \<open>\<open>openAIModelToDLLM\<close>\<close>

text \<open>\<open>bases.find(base => id.startsWith(base.id))\<close>: the in-order scan of the table.\<close>

definition scan :: "KnownBase list \<Rightarrow> jsstring \<Rightarrow> KnownBase option" where
  "scan bases mid = List.find (\<lambda>base. startsWith mid (base_id base)) bases"

text \<open>\<open>bases.find(...) || bases[bases.length - 1]\<close>: an object is truthy, so the right
  operand is evaluated only when the scan found nothing.\<close>

definition base_for :: "KnownBase list \<Rightarrow> jsstring \<Rightarrow> KnownBase option" where
  "base_for bases mid =
     (case scan bases mid of
        Some base \<Rightarrow> Some base
      | None \<Rightarrow> js_index bases (int (length bases) - 1))"

text \<open>\<open>model.id.slice(base.id.length).trim()\<close>, the local constant \<open>suffix\<close>.\<close>

definition suffix_of :: "KnownBase \<Rightarrow> jsstring \<Rightarrow> jsstring" where
  "suffix_of base mid = trim (slice mid (length (base_id base)))"

text \<open>
  The body of the function over a table \<open>bases\<close>. Its only way to fail is the read of
  \<open>base.id\<close> when \<open>base\<close> is \<open>undefined\<close>. A non-empty string is truthy, the empty
  string is falsy: that is the test \<open>suffix ? ... : ''\<close> and the value of \<open>!!suffix\<close>.
\<close>

definition openAIModelToDLLM_on ::
  "KnownBase list \<Rightarrow> 'm ModelDescription_scheme \<Rightarrow> 's DModelSource_scheme \<Rightarrow> js_error + 's DLLM"
where
  "openAIModelToDLLM_on bases model source =
     (case base_for bases (model_id model) of
        None \<Rightarrow> Inl TypeError
      | Some base \<Rightarrow>
          (let suffix = suffix_of base (model_id model) in
           Inr \<lparr> dllm_id = source_id source @ utf16 ''-'' @ model_id model,
                 dllm_label = base_label base @
                   (if suffix \<noteq> []
                    then utf16 '' ('' @ trim (replaceAll suffix hyphen space) @ utf16 '')''
                    else utf16 ''''),
                 dllm_created = model_created model,
                 dllm_description = base_description base,
                 tags = [utf16 ''stream'', utf16 ''chat''],
                 contextTokens = base_context base,
                 hidden = (suffix \<noteq> []),
                 sId = source_id source,
                 dllm_source = source,
                 options = \<lparr> llmRef = model_id model,
                             llmTemperature = 0.5,
                             llmResponseTokens = Math_round (real_of_int (base_context base) / 8) \<rparr> \<rparr>))"

text \<open>The function of the source: the table is the constant \<open>knownBases\<close>.\<close>

definition openAIModelToDLLM ::
  "'m ModelDescription_scheme \<Rightarrow> 's DModelSource_scheme \<Rightarrow> js_error + 's DLLM"
where
  "openAIModelToDLLM model source = openAIModelToDLLM_on knownBases model source"

section \<open>Predicates used to state properties\<close>

text \<open>
  The identifier is matched by the last entry of the table only: no entry with a
  non-empty \<open>id\<close> is a prefix of it.
\<close>

definition matched_only_by_fallback :: "jsstring \<Rightarrow> bool" where
  "matched_only_by_fallback mid \<longleftrightarrow>
     \<not> list_ex (\<lambda>base. base_id base \<noteq> [] \<and> startsWith mid (base_id base)) knownBases"

text \<open>
  The text between the parentheses of a label of the form
  \<open>bl + ' (' + t + ')'\<close>; \<open>None\<close> for a label of another form.
\<close>

definition parenthesized :: "jsstring \<Rightarrow> jsstring \<Rightarrow> jsstring option" where
  "parenthesized bl l =
     (if startsWith l (bl @ utf16 '' ('') \<and> length bl + 3 \<le> length l \<and> last l = 0x29
      then Some (butlast (drop (length bl + 2) l))
      else None)"

section \<open>Facts about the model\<close>

subsection \<open>Strings, the scan and the table\<close>

lemma utf16_Nil: "utf16 [] = []"
  by (simp add: utf16_def)

lemma utf16_hyphen: "utf16 ''-'' = [hyphen]"
  by (simp add: utf16_def hyphen_def)

lemma isWhiteSpace_space: "isWhiteSpace space"
  by (simp add: isWhiteSpace_def space_def)

lemma not_isWhiteSpace_hyphen: "\<not> isWhiteSpace hyphen"
  by (simp add: isWhiteSpace_def hyphen_def)

lemma startsWith_prefix: "startsWith s p \<longleftrightarrow> prefix p s"
proof
  assume "startsWith s p"
  then have "s = p @ drop (length p) s"
    by (metis append_take_drop_id startsWith_def)
  then show "prefix p s"
    by (metis prefixI)
next
  assume "prefix p s"
  then obtain zs where "s = p @ zs"
    by (auto simp: prefix_def)
  then show "startsWith s p"
    by (simp add: startsWith_def)
qed

lemma startsWith_Nil: "startsWith s []"
  by (simp add: startsWith_def)

lemma startsWith_slice: "startsWith s p \<Longrightarrow> s = p @ slice s (length p)"
  by (metis append_take_drop_id slice_def startsWith_def)

lemma scan_Some_iff:
  "scan bases mid = Some base \<longleftrightarrow>
     (\<exists>i<length bases. base = bases ! i \<and> startsWith mid (base_id (bases ! i)) \<and>
        (\<forall>j<i. \<not> startsWith mid (base_id (bases ! j))))"
  by (auto simp: scan_def find_Some_iff)

lemma scan_matches: "scan bases mid = Some base \<Longrightarrow> base \<in> set bases \<and> startsWith mid (base_id base)"
  by (auto simp: scan_Some_iff)

lemma scan_fallback:
  assumes "bases \<noteq> []" and "base_id (last bases) = []"
  shows "\<exists>base. scan bases mid = Some base"
proof (cases "scan bases mid")
  case None
  then have "\<not> startsWith mid (base_id (last bases))"
    using assms(1) by (auto simp: scan_def find_None_iff)
  with assms(2) show ?thesis
    by (simp add: startsWith_Nil)
next
  case (Some b)
  then show ?thesis by simp
qed

lemma base_for_scan: "scan bases mid = Some base \<Longrightarrow> base_for bases mid = Some base"
  by (simp add: base_for_def)

lemma base_for_nonempty: "bases \<noteq> [] \<Longrightarrow> \<exists>base. base_for bases mid = Some base"
  by (cases "scan bases mid") (auto simp: base_for_def js_index_def)

lemma base_for_empty: "base_for [] mid = None"
  by (simp add: base_for_def scan_def js_index_def)

lemma knownBases_length: "length knownBases = 4"
  by (simp add: knownBases_def)

lemma knownBases_last: "base_id (last knownBases) = []"
  by (simp add: knownBases_def utf16_def)

lemma scan_knownBases: "\<exists>base. scan knownBases mid = Some base"
  by (rule scan_fallback) (simp_all add: knownBases_def utf16_def)

lemma base_for_knownBases:
  "\<exists>base. scan knownBases mid = Some base \<and> base_for knownBases mid = Some base"
  using scan_knownBases [of mid] by (auto simp: base_for_scan)

lemma openAIModelToDLLM_on_Some:
  "base_for bases (model_id model) = Some base \<Longrightarrow>
   openAIModelToDLLM_on bases model source =
     Inr \<lparr> dllm_id = source_id source @ utf16 ''-'' @ model_id model,
           dllm_label = base_label base @
             (if suffix_of base (model_id model) \<noteq> []
              then utf16 '' ('' @ trim (replaceAll (suffix_of base (model_id model)) hyphen space) @ utf16 '')''
              else utf16 ''''),
           dllm_created = model_created model,
           dllm_description = base_description base,
           tags = [utf16 ''stream'', utf16 ''chat''],
           contextTokens = base_context base,
           hidden = (suffix_of base (model_id model) \<noteq> []),
           sId = source_id source,
           dllm_source = source,
           options = \<lparr> llmRef = model_id model,
                       llmTemperature = 0.5,
                       llmResponseTokens = Math_round (real_of_int (base_context base) / 8) \<rparr> \<rparr>"
  by (simp add: openAIModelToDLLM_on_def Let_def)

lemma openAIModelToDLLM_on_None:
  "base_for bases (model_id model) = None \<Longrightarrow> openAIModelToDLLM_on bases model source = Inl TypeError"
  by (simp add: openAIModelToDLLM_on_def)

lemma openAIModelToDLLM_on_empty: "openAIModelToDLLM_on [] model source = Inl TypeError"
  by (simp add: openAIModelToDLLM_on_None base_for_empty)

lemma openAIModelToDLLM_on_total:
  "bases \<noteq> [] \<Longrightarrow> \<exists>r. openAIModelToDLLM_on bases model source = Inr r"
  using base_for_nonempty [of bases "model_id model"]
  by (auto simp: openAIModelToDLLM_on_Some)

subsection \<open>Facts about \<open>trim\<close>\<close>

lemma trim_Nil_iff: "trim s = [] \<longleftrightarrow> (\<forall>c\<in>set s. isWhiteSpace c)"
proof -
  have "trim s = [] \<longleftrightarrow> (\<forall>c\<in>set (dropWhile isWhiteSpace s). isWhiteSpace c)"
    by (simp add: trim_def)
  also have "\<dots> \<longleftrightarrow> dropWhile isWhiteSpace s = []"
    by (metis hd_dropWhile hd_in_set empty_iff list.set(1))
  also have "\<dots> \<longleftrightarrow> (\<forall>c\<in>set s. isWhiteSpace c)"
    by simp
  finally show ?thesis .
qed

lemma trim_hd: "trim s \<noteq> [] \<Longrightarrow> \<not> isWhiteSpace (hd (trim s))"
proof -
  assume ne: "trim s \<noteq> []"
  let ?d = "dropWhile isWhiteSpace s"
  have "?d = [] \<Longrightarrow> trim s = []"
    unfolding trim_def by (simp del: dropWhile_eq_Nil_conv)
  then have dne: "?d \<noteq> []" using ne by blast
  have "trim s = rev (dropWhile isWhiteSpace (rev ?d))" by (simp add: trim_def)
  obtain l where l: "?d = trim s @ l"
    by (metis trim_def rev_append rev_rev_ident takeWhile_dropWhile_id)
  then have "hd (trim s) = hd ?d" using ne by (metis hd_append2)
  then show ?thesis using dne by (simp add: hd_dropWhile)
qed

lemma trim_last: "trim s \<noteq> [] \<Longrightarrow> \<not> isWhiteSpace (last (trim s))"
proof -
  assume ne: "trim s \<noteq> []"
  let ?r = "dropWhile isWhiteSpace (rev (dropWhile isWhiteSpace s))"
  have r: "trim s = rev ?r" by (simp add: trim_def)
  then have "?r \<noteq> []" using ne by simp
  then have "\<not> isWhiteSpace (hd ?r)" by (rule hd_dropWhile)
  then show ?thesis using r \<open>?r \<noteq> []\<close> by (simp add: last_rev)
qed

lemma trim_decomp:
  "\<exists>l r. s = l @ trim s @ r \<and> (\<forall>c\<in>set l. isWhiteSpace c) \<and> (\<forall>c\<in>set r. isWhiteSpace c)"
proof -
  let ?l = "takeWhile isWhiteSpace s"
  let ?d = "dropWhile isWhiteSpace s"
  let ?r = "rev (takeWhile isWhiteSpace (rev ?d))"
  have "rev ?d = takeWhile isWhiteSpace (rev ?d) @ dropWhile isWhiteSpace (rev ?d)"
    by simp
  then have "?d = trim s @ ?r"
    by (metis trim_def rev_append rev_rev_ident)
  then have "s = ?l @ trim s @ ?r"
    by (metis takeWhile_dropWhile_id)
  moreover have "\<forall>c\<in>set ?l. isWhiteSpace c"
    by (auto dest: set_takeWhileD)
  moreover have "\<forall>c\<in>set ?r. isWhiteSpace c"
    by (auto dest: set_takeWhileD)
  ultimately show ?thesis by blast
qed

lemma trim_fixed:
  assumes "s \<noteq> []" "\<not> isWhiteSpace (hd s)" "\<not> isWhiteSpace (last s)"
  shows "trim s = s"
proof -
  have 1: "dropWhile isWhiteSpace s = s"
    using assms(1,2) by (cases s) auto
  have "rev s \<noteq> []" "\<not> isWhiteSpace (hd (rev s))"
    using assms(1,3) by (simp_all add: hd_rev)
  then have "dropWhile isWhiteSpace (rev s) = rev s"
    by (cases "rev s") auto
  with 1 show ?thesis by (simp add: trim_def)
qed

lemma trim_idem: "trim (trim s) = trim s"
proof (cases "trim s = []")
  case True
  have "trim [] = []" by (simp add: trim_def)
  with True show ?thesis by simp
next
  case False
  then show ?thesis by (simp add: trim_fixed trim_hd trim_last)
qed

subsection \<open>Facts about \<open>replaceAll\<close> and \<open>Math.round\<close>\<close>

lemma replaceAll_length: "length (replaceAll s a b) = length s"
  by (simp add: replaceAll_def)

lemma replaceAll_nth:
  "i < length s \<Longrightarrow> replaceAll s a b ! i = (if s ! i = a then b else s ! i)"
  by (simp add: replaceAll_def)

lemma replaceAll_removes: "a \<noteq> b \<Longrightarrow> a \<notin> set (replaceAll s a b)"
  by (auto simp: replaceAll_def)

lemma Math_round_div8: "Math_round (real_of_int c / 8) = (c + 4) div 8"
proof -
  have "real_of_int c / 8 + 1 / 2 = real_of_int (c + 4) / real_of_int 8"
    by simp
  then show ?thesis
    unfolding Math_round_def by (metis floor_divide_of_int_eq)
qed

lemma Math_round_nearest: "\<bar>real_of_int (Math_round x) - x\<bar> \<le> 1 / 2"
  unfolding Math_round_def by linarith

lemma Math_round_tie_up: "Math_round (real_of_int n + 1 / 2) = n + 1"
  unfolding Math_round_def by simp

subsection \<open>The record that is returned\<close>

lemma openAIModelToDLLM_Some:
  "base_for knownBases (model_id model) = Some base \<Longrightarrow>
   \<exists>r. openAIModelToDLLM model source = Inr r \<and>
       dllm_id r = source_id source @ utf16 ''-'' @ model_id model \<and>
       dllm_label r = base_label base @
             (if suffix_of base (model_id model) \<noteq> []
              then utf16 '' ('' @ trim (replaceAll (suffix_of base (model_id model)) hyphen space) @ utf16 '')''
              else utf16 '''') \<and>
       dllm_created r = model_created model \<and>
       dllm_description r = base_description base \<and>
       tags r = [utf16 ''stream'', utf16 ''chat''] \<and>
       contextTokens r = base_context base \<and>
       hidden r = (suffix_of base (model_id model) \<noteq> []) \<and>
       sId r = source_id source \<and>
       dllm_source r = source \<and>
       llmRef (options r) = model_id model \<and>
       llmTemperature (options r) = 0.5 \<and>
       llmResponseTokens (options r) = Math_round (real_of_int (base_context base) / 8)"
  by (simp add: openAIModelToDLLM_def openAIModelToDLLM_on_Some)

subsection \<open>The suffix, the label and the identifiers of the examples\<close>

lemma trim_subset: "set (trim s) \<subseteq> set s"
proof -
  obtain l r where "s = l @ trim s @ r"
    using trim_decomp by blast
  then have "set s = set l \<union> set (trim s) \<union> set r"
    by (metis set_append sup_assoc)
  then show ?thesis by blast
qed

lemma trim_Nil: "trim [] = []"
  by (simp add: trim_def)

lemma base_for_splits:
  "base_for knownBases mid = Some base \<Longrightarrow> mid = base_id base @ slice mid (length (base_id base))"
proof -
  assume bf: "base_for knownBases mid = Some base"
  obtain b where b: "scan knownBases mid = Some b" "base_for knownBases mid = Some b"
    using base_for_knownBases by blast
  with bf have "b = base" by simp
  with b(1) have "startsWith mid (base_id base)"
    using scan_matches by blast
  then show ?thesis by (rule startsWith_slice)
qed

lemma suffix_of_own_id: "suffix_of b (base_id b) = []"
  by (simp add: suffix_of_def slice_def trim_Nil)

lemma scan_own_id: "\<forall>b\<in>set knownBases. scan knownBases (base_id b) = Some b"
  by (simp add: knownBases_def scan_def startsWith_def utf16_def)

lemma base_for_gpt_4_32k: "base_for knownBases (utf16 ''gpt-4-32k'') = Some (knownBases ! 0)"
  by (rule base_for_scan) (simp add: knownBases_def scan_def startsWith_def utf16_def)

lemma base_for_gpt_4_0314: "base_for knownBases (utf16 ''gpt-4-0314'') = Some (knownBases ! 1)"
  by (rule base_for_scan) (simp add: knownBases_def scan_def startsWith_def utf16_def)

lemma suffix_of_gpt_4_0314: "suffix_of (knownBases ! 1) (utf16 ''gpt-4-0314'') = utf16 ''-0314''"
  by (simp add: knownBases_def suffix_of_def slice_def trim_def isWhiteSpace_def utf16_def)

lemma label_text_0314: "trim (replaceAll (utf16 ''-0314'') hyphen space) = utf16 ''0314''"
  by (simp add: replaceAll_def hyphen_def space_def trim_def isWhiteSpace_def utf16_def)

lemma scan_only_fallback:
  "matched_only_by_fallback mid \<Longrightarrow> scan knownBases mid = Some (last knownBases)"
  by (simp add: matched_only_by_fallback_def scan_def knownBases_def utf16_def startsWith_Nil)

lemma last_knownBases:
  "last knownBases = \<lparr> base_id = utf16 '''', base_label = utf16 ''?:'',
     base_context = 4096,
     base_description = utf16 ''Unknown, please let us know the ID'' \<rparr>"
  by (simp add: knownBases_def)

lemma suffix_of_fallback: "suffix_of (last knownBases) mid = trim mid"
  by (simp add: suffix_of_def slice_def knownBases_last)

lemma only_fallback_text_davinci_003: "matched_only_by_fallback (utf16 ''text-davinci-003'')"
  by (simp add: matched_only_by_fallback_def knownBases_def startsWith_def utf16_def)

lemma trim_text_davinci_003: "trim (utf16 ''text-davinci-003'') = utf16 ''text-davinci-003''"
  by (simp add: trim_def isWhiteSpace_def utf16_def)

lemma label_text_davinci_003:
  "utf16 ''?:'' @ utf16 '' ('' @ trim (replaceAll (utf16 ''text-davinci-003'') hyphen space) @ utf16 '')''
     = utf16 ''?: (text davinci 003)''"
  by (simp add: replaceAll_def hyphen_def space_def trim_def isWhiteSpace_def utf16_def)

lemma parenthesized_label: "parenthesized bl (bl @ utf16 '' ('' @ t @ utf16 '')'') = Some t"
  by (simp add: parenthesized_def startsWith_def utf16_def)

lemma label_text_Nil_iff:
  "trim (replaceAll s hyphen space) = [] \<longleftrightarrow> (\<forall>c\<in>set s. c = hyphen \<or> isWhiteSpace c)"
  by (auto simp: trim_Nil_iff replaceAll_def isWhiteSpace_space)

lemma base_for_gpt_4_blank: "base_for knownBases (utf16 ''gpt-4 '') = Some (knownBases ! 1)"
  by (rule base_for_scan) (simp add: knownBases_def scan_def startsWith_def utf16_def)

lemma suffix_of_gpt_4_blank: "suffix_of (knownBases ! 1) (utf16 ''gpt-4 '') = []"
  by (simp add: knownBases_def suffix_of_def slice_def trim_def isWhiteSpace_def utf16_def)

lemma base_for_gpt_4_blank_x: "base_for knownBases (utf16 ''gpt-4 x '') = Some (knownBases ! 1)"
  by (rule base_for_scan) (simp add: knownBases_def scan_def startsWith_def utf16_def)

lemma suffix_of_gpt_4_blank_x: "suffix_of (knownBases ! 1) (utf16 ''gpt-4 x '') = utf16 ''x''"
  by (simp add: knownBases_def suffix_of_def slice_def trim_def isWhiteSpace_def utf16_def)

lemma label_text_x: "trim (replaceAll (utf16 ''x'') hyphen space) = utf16 ''x''"
  by (simp add: replaceAll_def hyphen_def space_def trim_def isWhiteSpace_def utf16_def)

section \<open>Properties of \<open>openAIModelToDLLM\<close>\<close>

text \<open>
  C1. The function is total: for every model description (any identifier string, any
  creation timestamp) and every source it returns one record, with all its fields,
  and never throws.
\<close>

theorem normalize_total: "\<exists>!r. openAIModelToDLLM model source = Inr r"
proof -
  obtain base where "base_for knownBases (model_id model) = Some base"
    using base_for_knownBases by blast
  then obtain r where "openAIModelToDLLM model source = Inr r"
    using openAIModelToDLLM_Some by blast
  then show ?thesis by simp
qed

text \<open>
  C2. The base is chosen by the in-order scan of \<open>knownBases\<close>, the first match
  winning: it is the entry at the least index whose \<open>id\<close> is a prefix of the
  identifier, and the record takes its context size and description from it. For
  \<open>gpt-3.5-turbo-0301\<close> the context size is 4097, not the 4096 of the last entry.
\<close>

theorem first_match_wins:
  "(\<exists>i<length knownBases.
      prefix (base_id (knownBases ! i)) (model_id model) \<and>
      (\<forall>j<i. \<not> prefix (base_id (knownBases ! j)) (model_id model)) \<and>
      base_for knownBases (model_id model) = Some (knownBases ! i) \<and>
      (\<exists>r. openAIModelToDLLM model source = Inr r \<and>
           contextTokens r = base_context (knownBases ! i) \<and>
           dllm_description r = base_description (knownBases ! i))) \<and>
   (model_id model = utf16 ''gpt-3.5-turbo-0301'' \<longrightarrow>
      (\<exists>r. openAIModelToDLLM model source = Inr r \<and> contextTokens r = 4097))"
proof (intro conjI impI)
  obtain base where sc: "scan knownBases (model_id model) = Some base"
    using scan_knownBases by blast
  then obtain i where i: "i < length knownBases" "base = knownBases ! i"
      "startsWith (model_id model) (base_id (knownBases ! i))"
      "\<forall>j<i. \<not> startsWith (model_id model) (base_id (knownBases ! j))"
    unfolding scan_Some_iff by blast
  have bf: "base_for knownBases (model_id model) = Some (knownBases ! i)"
    using sc i(2) by (simp add: base_for_scan)
  obtain r where "openAIModelToDLLM model source = Inr r"
      "contextTokens r = base_context (knownBases ! i)"
      "dllm_description r = base_description (knownBases ! i)"
    using openAIModelToDLLM_Some [OF bf, of source] by blast
  with i bf show "\<exists>i<length knownBases.
      prefix (base_id (knownBases ! i)) (model_id model) \<and>
      (\<forall>j<i. \<not> prefix (base_id (knownBases ! j)) (model_id model)) \<and>
      base_for knownBases (model_id model) = Some (knownBases ! i) \<and>
      (\<exists>r. openAIModelToDLLM model source = Inr r \<and>
           contextTokens r = base_context (knownBases ! i) \<and>
           dllm_description r = base_description (knownBases ! i))"
    unfolding startsWith_prefix by blast
next
  assume m: "model_id model = utf16 ''gpt-3.5-turbo-0301''"
  have "scan knownBases (utf16 ''gpt-3.5-turbo-0301'') = Some (knownBases ! 2)"
    by (simp add: scan_def knownBases_def startsWith_def utf16_def)
  then have bf: "base_for knownBases (model_id model) = Some (knownBases ! 2)"
    using m by (simp add: base_for_scan)
  have "base_context (knownBases ! 2) = 4097"
    by (simp add: knownBases_def)
  then show "\<exists>r. openAIModelToDLLM model source = Inr r \<and> contextTokens r = 4097"
    using openAIModelToDLLM_Some [OF bf, of source] by auto
qed

theorem first_match_wins_witness:
  "\<exists>r. openAIModelToDLLM \<lparr>model_id = utf16 ''gpt-4-0314'', model_created = 1678752000\<rparr>
          \<lparr>source_id = utf16 ''openai''\<rparr> = Inr r \<and>
       contextTokens r = 8192"
proof -
  let ?m = "\<lparr>model_id = utf16 ''gpt-4-0314'', model_created = 1678752000\<rparr>"
  let ?s = "\<lparr>source_id = utf16 ''openai''\<rparr>"
  obtain i r where i: "i < length knownBases"
      "prefix (base_id (knownBases ! i)) (model_id ?m)"
      "\<forall>j<i. \<not> prefix (base_id (knownBases ! j)) (model_id ?m)"
      and r: "openAIModelToDLLM ?m ?s = Inr r" "contextTokens r = base_context (knownBases ! i)"
    using first_match_wins [of ?m ?s] by blast
  have p0: "\<not> prefix (base_id (knownBases ! 0)) (model_id ?m)"
    by (simp add: startsWith_prefix [symmetric] startsWith_def knownBases_def utf16_def)
  have p1: "prefix (base_id (knownBases ! 1)) (model_id ?m)"
    by (simp add: startsWith_prefix [symmetric] startsWith_def knownBases_def utf16_def)
  have "i \<noteq> 0" using i(2) p0 by metis
  moreover have "\<not> 1 < i" using i(3) p1 by blast
  ultimately have "i = 1" by arith
  then have "contextTokens r = 8192"
    using r(2) by (simp add: knownBases_def)
  with r(1) show ?thesis by blast
qed

text \<open>
  C3. For every input the identifier is the matched base's \<open>id\<close> followed by a
  remainder, and the suffix is that remainder trimmed: the remainder is white space,
  the suffix, white space, and a non-empty suffix neither starts nor ends with white
  space. \<open>hidden\<close> is true if and only if the suffix is non-empty, that is, if and
  only if the remainder has a code unit that is not white space. An identifier equal
  to the \<open>id\<close> of an entry of the table selects that entry, has the empty suffix and
  is not hidden; \<open>gpt-4-32k\<close> is not hidden and has the label \<open>GPT-4-32\<close>. The
  identifier \<open>gpt-4-0314\<close> is hidden; \<open>gpt-4\<close> followed by one space has a remainder
  of white space only and is not hidden; \<open>gpt-4 x\<close> followed by one space has the
  suffix \<open>x\<close> and is hidden.
\<close>

theorem hidden_iff_suffix_nonempty:
  "(\<exists>base rest r.
      base_for knownBases (model_id model) = Some base \<and>
      model_id model = base_id base @ rest \<and>
      suffix_of base (model_id model) = trim rest \<and>
      openAIModelToDLLM model source = Inr r \<and>
      hidden r = (trim rest \<noteq> []) \<and>
      hidden r = (\<exists>c\<in>set rest. \<not> isWhiteSpace c) \<and>
      (\<exists>before after.
         rest = before @ suffix_of base (model_id model) @ after \<and>
         (\<forall>c\<in>set before. isWhiteSpace c) \<and> (\<forall>c\<in>set after. isWhiteSpace c)) \<and>
      (suffix_of base (model_id model) \<noteq> [] \<longrightarrow>
         \<not> isWhiteSpace (hd (suffix_of base (model_id model))) \<and>
         \<not> isWhiteSpace (last (suffix_of base (model_id model))))) \<and>
   (\<forall>b\<in>set knownBases. model_id model = base_id b \<longrightarrow>
      (\<exists>r. openAIModelToDLLM model source = Inr r \<and>
           base_for knownBases (model_id model) = Some b \<and>
           suffix_of b (model_id model) = [] \<and>
           hidden r = False)) \<and>
   (model_id model = utf16 ''gpt-4-32k'' \<longrightarrow>
      (\<exists>r. openAIModelToDLLM model source = Inr r \<and>
           hidden r = False \<and> dllm_label r = utf16 ''GPT-4-32'')) \<and>
   (model_id model = utf16 ''gpt-4-0314'' \<longrightarrow>
      suffix_of (knownBases ! 1) (model_id model) = utf16 ''-0314'' \<and>
      (\<exists>r. openAIModelToDLLM model source = Inr r \<and> hidden r = True)) \<and>
   (model_id model = utf16 ''gpt-4 '' \<longrightarrow>
      suffix_of (knownBases ! 1) (model_id model) = utf16 '''' \<and>
      (\<exists>r. openAIModelToDLLM model source = Inr r \<and>
           hidden r = False \<and> dllm_label r = utf16 ''GPT-4'')) \<and>
   (model_id model = utf16 ''gpt-4 x '' \<longrightarrow>
      suffix_of (knownBases ! 1) (model_id model) = utf16 ''x'' \<and>
      (\<exists>r. openAIModelToDLLM model source = Inr r \<and>
           hidden r = True \<and> dllm_label r = utf16 ''GPT-4 (x)''))"
proof -
  have general: "\<exists>base rest r.
      base_for knownBases (model_id model) = Some base \<and>
      model_id model = base_id base @ rest \<and>
      suffix_of base (model_id model) = trim rest \<and>
      openAIModelToDLLM model source = Inr r \<and>
      hidden r = (trim rest \<noteq> []) \<and>
      hidden r = (\<exists>c\<in>set rest. \<not> isWhiteSpace c) \<and>
      (\<exists>before after.
         rest = before @ suffix_of base (model_id model) @ after \<and>
         (\<forall>c\<in>set before. isWhiteSpace c) \<and> (\<forall>c\<in>set after. isWhiteSpace c)) \<and>
      (suffix_of base (model_id model) \<noteq> [] \<longrightarrow>
         \<not> isWhiteSpace (hd (suffix_of base (model_id model))) \<and>
         \<not> isWhiteSpace (last (suffix_of base (model_id model))))"
  proof -
    obtain base where bf: "base_for knownBases (model_id model) = Some base"
      using base_for_knownBases by blast
    let ?rest = "slice (model_id model) (length (base_id base))"
    have split: "model_id model = base_id base @ ?rest"
      using bf by (rule base_for_splits)
    have sfx: "suffix_of base (model_id model) = trim ?rest"
      by (simp add: suffix_of_def)
    obtain r where r: "openAIModelToDLLM model source = Inr r"
        "hidden r = (suffix_of base (model_id model) \<noteq> [])"
      using openAIModelToDLLM_Some [OF bf, of source] by blast
    have h1: "hidden r = (trim ?rest \<noteq> [])"
      using r(2) sfx by simp
    have h2: "hidden r = (\<exists>c\<in>set ?rest. \<not> isWhiteSpace c)"
      unfolding h1 trim_Nil_iff by blast
    have dec: "\<exists>before after.
         ?rest = before @ suffix_of base (model_id model) @ after \<and>
         (\<forall>c\<in>set before. isWhiteSpace c) \<and> (\<forall>c\<in>set after. isWhiteSpace c)"
      unfolding sfx by (rule trim_decomp)
    have ends: "suffix_of base (model_id model) \<noteq> [] \<longrightarrow>
         \<not> isWhiteSpace (hd (suffix_of base (model_id model))) \<and>
         \<not> isWhiteSpace (last (suffix_of base (model_id model)))"
      unfolding sfx using trim_hd trim_last by blast
    show ?thesis
      using bf split sfx r(1) h1 h2 dec ends by blast
  qed
  have own: "\<forall>b\<in>set knownBases. model_id model = base_id b \<longrightarrow>
      (\<exists>r. openAIModelToDLLM model source = Inr r \<and>
           base_for knownBases (model_id model) = Some b \<and>
           suffix_of b (model_id model) = [] \<and>
           hidden r = False)"
  proof (intro ballI impI)
    fix b
    assume b: "b \<in> set knownBases" and m: "model_id model = base_id b"
    have bf: "base_for knownBases (model_id model) = Some b"
      using b m scan_own_id by (simp add: base_for_scan)
    show "\<exists>r. openAIModelToDLLM model source = Inr r \<and>
           base_for knownBases (model_id model) = Some b \<and>
           suffix_of b (model_id model) = [] \<and>
           hidden r = False"
      using openAIModelToDLLM_Some [OF bf, of source] bf m
      by (auto simp: suffix_of_own_id)
  qed
  have i32k: "\<exists>r. openAIModelToDLLM model source = Inr r \<and>
           hidden r = False \<and> dllm_label r = utf16 ''GPT-4-32''"
    if m: "model_id model = utf16 ''gpt-4-32k''"
  proof -
    have bf: "base_for knownBases (model_id model) = Some (knownBases ! 0)"
      using m base_for_gpt_4_32k by simp
    have "suffix_of (knownBases ! 0) (model_id model) = []"
      using m suffix_of_own_id [of "knownBases ! 0"] by (simp add: knownBases_def)
    then show ?thesis
      using openAIModelToDLLM_Some [OF bf, of source]
      by (auto simp: knownBases_def utf16_Nil)
  qed
  have i0314: "suffix_of (knownBases ! 1) (model_id model) = utf16 ''-0314'' \<and>
      (\<exists>r. openAIModelToDLLM model source = Inr r \<and> hidden r = True)"
    if m: "model_id model = utf16 ''gpt-4-0314''"
  proof -
    have bf: "base_for knownBases (model_id model) = Some (knownBases ! 1)"
      using m base_for_gpt_4_0314 by simp
    have sfx: "suffix_of (knownBases ! 1) (model_id model) = utf16 ''-0314''"
      using m suffix_of_gpt_4_0314 by simp
    have ne: "utf16 ''-0314'' \<noteq> []"
      by (simp add: utf16_def)
    show ?thesis
      using openAIModelToDLLM_Some [OF bf, of source] sfx ne by auto
  qed
  have iblank: "suffix_of (knownBases ! 1) (model_id model) = utf16 '''' \<and>
      (\<exists>r. openAIModelToDLLM model source = Inr r \<and>
           hidden r = False \<and> dllm_label r = utf16 ''GPT-4'')"
    if m: "model_id model = utf16 ''gpt-4 ''"
  proof -
    have bf: "base_for knownBases (model_id model) = Some (knownBases ! 1)"
      using m base_for_gpt_4_blank by simp
    have sfx: "suffix_of (knownBases ! 1) (model_id model) = []"
      using m suffix_of_gpt_4_blank by simp
    have bl: "base_label (knownBases ! 1) = utf16 ''GPT-4''"
      by (simp add: knownBases_def)
    show ?thesis
      using openAIModelToDLLM_Some [OF bf, of source] sfx bl
      by (auto simp: utf16_Nil)
  qed
  have ix: "suffix_of (knownBases ! 1) (model_id model) = utf16 ''x'' \<and>
      (\<exists>r. openAIModelToDLLM model source = Inr r \<and>
           hidden r = True \<and> dllm_label r = utf16 ''GPT-4 (x)'')"
    if m: "model_id model = utf16 ''gpt-4 x ''"
  proof -
    have bf: "base_for knownBases (model_id model) = Some (knownBases ! 1)"
      using m base_for_gpt_4_blank_x by simp
    have sfx: "suffix_of (knownBases ! 1) (model_id model) = utf16 ''x''"
      using m suffix_of_gpt_4_blank_x by simp
    have ne: "utf16 ''x'' \<noteq> []"
      by (simp add: utf16_def)
    have lbl: "base_label (knownBases ! 1) @ utf16 '' ('' @ utf16 ''x'' @ utf16 '')''
        = utf16 ''GPT-4 (x)''"
      by (simp add: knownBases_def utf16_def)
    show ?thesis
      using openAIModelToDLLM_Some [OF bf, of source] sfx ne lbl
      by (auto simp: label_text_x)
  qed
  show ?thesis
    using general own i32k i0314 iblank ix by blast
qed

theorem hidden_iff_suffix_nonempty_witness:
  "(\<exists>r. openAIModelToDLLM \<lparr>model_id = utf16 ''gpt-4-32k'', model_created = 1678752000\<rparr>
          \<lparr>source_id = utf16 ''openai''\<rparr> = Inr r \<and>
        hidden r = False \<and> dllm_label r = utf16 ''GPT-4-32'') \<and>
   (\<exists>r. openAIModelToDLLM \<lparr>model_id = utf16 ''gpt-4-0314'', model_created = 1678752000\<rparr>
          \<lparr>source_id = utf16 ''openai''\<rparr> = Inr r \<and>
        hidden r = True) \<and>
   (\<exists>r. openAIModelToDLLM \<lparr>model_id = utf16 ''gpt-4 '', model_created = 1678752000\<rparr>
          \<lparr>source_id = utf16 ''openai''\<rparr> = Inr r \<and>
        hidden r = False \<and> dllm_label r = utf16 ''GPT-4'') \<and>
   (\<exists>r. openAIModelToDLLM \<lparr>model_id = utf16 ''gpt-4 x '', model_created = 1678752000\<rparr>
          \<lparr>source_id = utf16 ''openai''\<rparr> = Inr r \<and>
        hidden r = True \<and> dllm_label r = utf16 ''GPT-4 (x)'')"
proof (intro conjI)
  show "\<exists>r. openAIModelToDLLM \<lparr>model_id = utf16 ''gpt-4-32k'', model_created = 1678752000\<rparr>
          \<lparr>source_id = utf16 ''openai''\<rparr> = Inr r \<and>
        hidden r = False \<and> dllm_label r = utf16 ''GPT-4-32''"
    using hidden_iff_suffix_nonempty
      [of "\<lparr>model_id = utf16 ''gpt-4-32k'', model_created = 1678752000\<rparr>"
          "\<lparr>source_id = utf16 ''openai''\<rparr>"]
    by simp
next
  show "\<exists>r. openAIModelToDLLM \<lparr>model_id = utf16 ''gpt-4-0314'', model_created = 1678752000\<rparr>
          \<lparr>source_id = utf16 ''openai''\<rparr> = Inr r \<and>
        hidden r = True"
    using hidden_iff_suffix_nonempty
      [of "\<lparr>model_id = utf16 ''gpt-4-0314'', model_created = 1678752000\<rparr>"
          "\<lparr>source_id = utf16 ''openai''\<rparr>"]
    by simp
next
  show "\<exists>r. openAIModelToDLLM \<lparr>model_id = utf16 ''gpt-4 '', model_created = 1678752000\<rparr>
          \<lparr>source_id = utf16 ''openai''\<rparr> = Inr r \<and>
        hidden r = False \<and> dllm_label r = utf16 ''GPT-4''"
    using hidden_iff_suffix_nonempty
      [of "\<lparr>model_id = utf16 ''gpt-4 '', model_created = 1678752000\<rparr>"
          "\<lparr>source_id = utf16 ''openai''\<rparr>"]
    by simp
next
  show "\<exists>r. openAIModelToDLLM \<lparr>model_id = utf16 ''gpt-4 x '', model_created = 1678752000\<rparr>
          \<lparr>source_id = utf16 ''openai''\<rparr> = Inr r \<and>
        hidden r = True \<and> dllm_label r = utf16 ''GPT-4 (x)''"
    using hidden_iff_suffix_nonempty
      [of "\<lparr>model_id = utf16 ''gpt-4 x '', model_created = 1678752000\<rparr>"
          "\<lparr>source_id = utf16 ''openai''\<rparr>"]
    by simp
qed

text \<open>
  C4. For every input the label is the matched base's label when the suffix is empty;
  otherwise it is the base label, a space, and in parentheses the suffix with every
  hyphen replaced by a space and the result trimmed (so no hyphen is left between the
  parentheses). \<open>gpt-4-0314\<close> has the label \<open>GPT-4 (0314)\<close>.
\<close>

theorem label_of_suffix:
  "(\<exists>base r.
      base_for knownBases (model_id model) = Some base \<and>
      openAIModelToDLLM model source = Inr r \<and>
      (suffix_of base (model_id model) = [] \<longrightarrow> dllm_label r = base_label base) \<and>
      (suffix_of base (model_id model) \<noteq> [] \<longrightarrow>
         dllm_label r = base_label base @ [space] @ utf16 ''('' @
           trim (replaceAll (suffix_of base (model_id model)) hyphen space) @ utf16 '')'' \<and>
         hyphen \<notin> set (trim (replaceAll (suffix_of base (model_id model)) hyphen space)))) \<and>
   (model_id model = utf16 ''gpt-4-0314'' \<longrightarrow>
      (\<exists>r. openAIModelToDLLM model source = Inr r \<and>
           hidden r = True \<and> dllm_label r = utf16 ''GPT-4 (0314)''))"
proof (intro conjI impI)
  obtain base where bf: "base_for knownBases (model_id model) = Some base"
    using base_for_knownBases by blast
  let ?sfx = "suffix_of base (model_id model)"
  obtain r where r: "openAIModelToDLLM model source = Inr r"
      "dllm_label r = base_label base @
         (if ?sfx \<noteq> [] then utf16 '' ('' @ trim (replaceAll ?sfx hyphen space) @ utf16 '')''
          else utf16 '''')"
    using openAIModelToDLLM_Some [OF bf, of source] by blast
  have sp: "utf16 '' ('' = [space] @ utf16 ''(''"
    by (simp add: utf16_def space_def)
  have "hyphen \<noteq> space"
    by (simp add: hyphen_def space_def)
  then have "hyphen \<notin> set (replaceAll ?sfx hyphen space)"
    by (rule replaceAll_removes)
  then have nh: "hyphen \<notin> set (trim (replaceAll ?sfx hyphen space))"
    using trim_subset by blast
  have "?sfx = [] \<longrightarrow> dllm_label r = base_label base"
    using r(2) by (simp add: utf16_Nil)
  moreover have "?sfx \<noteq> [] \<longrightarrow>
      dllm_label r = base_label base @ [space] @ utf16 ''('' @
        trim (replaceAll ?sfx hyphen space) @ utf16 '')''"
    using r(2) sp by simp
  ultimately show "\<exists>base r.
      base_for knownBases (model_id model) = Some base \<and>
      openAIModelToDLLM model source = Inr r \<and>
      (suffix_of base (model_id model) = [] \<longrightarrow> dllm_label r = base_label base) \<and>
      (suffix_of base (model_id model) \<noteq> [] \<longrightarrow>
         dllm_label r = base_label base @ [space] @ utf16 ''('' @
           trim (replaceAll (suffix_of base (model_id model)) hyphen space) @ utf16 '')'' \<and>
         hyphen \<notin> set (trim (replaceAll (suffix_of base (model_id model)) hyphen space)))"
    using bf r(1) nh by blast
next
  assume m: "model_id model = utf16 ''gpt-4-0314''"
  have bf: "base_for knownBases (model_id model) = Some (knownBases ! 1)"
    using m base_for_gpt_4_0314 by simp
  have sfx: "suffix_of (knownBases ! 1) (model_id model) = utf16 ''-0314''"
    using m suffix_of_gpt_4_0314 by simp
  have ne: "utf16 ''-0314'' \<noteq> []"
    by (simp add: utf16_def)
  have lbl: "base_label (knownBases ! 1) @ utf16 '' ('' @ utf16 ''0314'' @ utf16 '')''
      = utf16 ''GPT-4 (0314)''"
    by (simp add: knownBases_def utf16_def)
  show "\<exists>r. openAIModelToDLLM model source = Inr r \<and>
           hidden r = True \<and> dllm_label r = utf16 ''GPT-4 (0314)''"
    using openAIModelToDLLM_Some [OF bf, of source] sfx ne lbl
    by (auto simp: label_text_0314)
qed

theorem label_of_suffix_witness:
  "\<exists>r. openAIModelToDLLM \<lparr>model_id = utf16 ''gpt-4-0314'', model_created = 1678752000\<rparr>
          \<lparr>source_id = utf16 ''openai''\<rparr> = Inr r \<and>
       hidden r = True \<and> dllm_label r = utf16 ''GPT-4 (0314)''"
  using label_of_suffix
    [of "\<lparr>model_id = utf16 ''gpt-4-0314'', model_created = 1678752000\<rparr>"
        "\<lparr>source_id = utf16 ''openai''\<rparr>"]
  by simp

text \<open>
  C5. For every input \<open>options.llmResponseTokens\<close> is \<open>Math.round\<close> of the matched
  base's context size divided by 8: the integer within one half of the quotient,
  \<open>(context + 4) div 8\<close>. For the entries of the table, in order: 32768 gives 4096,
  8192 gives 1024, 4097 gives 512 and 4096 gives 512.
\<close>

theorem response_tokens_rounded:
  "(\<exists>base r.
      base_for knownBases (model_id model) = Some base \<and>
      openAIModelToDLLM model source = Inr r \<and>
      contextTokens r = base_context base \<and>
      llmResponseTokens (options r) = Math_round (real_of_int (base_context base) / 8) \<and>
      \<bar>real_of_int (llmResponseTokens (options r)) - real_of_int (base_context base) / 8\<bar>
        \<le> 1 / 2 \<and>
      llmResponseTokens (options r) = (base_context base + 4) div 8) \<and>
   map base_context knownBases = [32768, 8192, 4097, 4096] \<and>
   map (\<lambda>base. Math_round (real_of_int (base_context base) / 8)) knownBases
     = [4096, 1024, 512, 512]"
proof (intro conjI)
  obtain base where bf: "base_for knownBases (model_id model) = Some base"
    using base_for_knownBases by blast
  obtain r where r: "openAIModelToDLLM model source = Inr r"
      "contextTokens r = base_context base"
      "llmResponseTokens (options r) = Math_round (real_of_int (base_context base) / 8)"
    using openAIModelToDLLM_Some [OF bf, of source] by blast
  have "\<bar>real_of_int (llmResponseTokens (options r)) - real_of_int (base_context base) / 8\<bar>
      \<le> 1 / 2"
    unfolding r(3) by (rule Math_round_nearest)
  moreover have "llmResponseTokens (options r) = (base_context base + 4) div 8"
    unfolding r(3) by (rule Math_round_div8)
  ultimately show "\<exists>base r.
      base_for knownBases (model_id model) = Some base \<and>
      openAIModelToDLLM model source = Inr r \<and>
      contextTokens r = base_context base \<and>
      llmResponseTokens (options r) = Math_round (real_of_int (base_context base) / 8) \<and>
      \<bar>real_of_int (llmResponseTokens (options r)) - real_of_int (base_context base) / 8\<bar>
        \<le> 1 / 2 \<and>
      llmResponseTokens (options r) = (base_context base + 4) div 8"
    using bf r by blast
next
  show "map base_context knownBases = [32768, 8192, 4097, 4096]"
    by (simp add: knownBases_def)
next
  show "map (\<lambda>base. Math_round (real_of_int (base_context base) / 8)) knownBases
     = [4096, 1024, 512, 512]"
    by (simp add: knownBases_def Math_round_div8)
qed

text \<open>
  C6. For every source and every identifier the record's \<open>id\<close> is the source's
  \<open>id\<close>, one hyphen and the identifier, code unit for code unit: the source's
  \<open>id\<close> and the identifier are read back from it by position. \<open>sId\<close> and
  \<open>options.llmRef\<close> hold the two parts unchanged.
\<close>

theorem composite_id_concat:
  "\<exists>r. openAIModelToDLLM model source = Inr r \<and>
       dllm_id r = source_id source @ [hyphen] @ model_id model \<and>
       length (dllm_id r) = length (source_id source) + 1 + length (model_id model) \<and>
       take (length (source_id source)) (dllm_id r) = source_id source \<and>
       drop (length (source_id source) + 1) (dllm_id r) = model_id model \<and>
       sId r = source_id source \<and>
       llmRef (options r) = model_id model"
proof -
  obtain base where bf: "base_for knownBases (model_id model) = Some base"
    using base_for_knownBases by blast
  obtain r where r: "openAIModelToDLLM model source = Inr r"
      "dllm_id r = source_id source @ utf16 ''-'' @ model_id model"
      "sId r = source_id source" "llmRef (options r) = model_id model"
    using openAIModelToDLLM_Some [OF bf, of source] by blast
  have "dllm_id r = source_id source @ [hyphen] @ model_id model"
    using r(2) by (simp add: utf16_hyphen)
  then show ?thesis
    using r(1,3,4) by simp
qed

text \<open>
  C8. For every input the tags are \<open>stream\<close> and \<open>chat\<close>, and nothing else; two
  calls give the same tags whatever the model descriptions and the sources hold.
\<close>

theorem tags_fixed:
  "(\<exists>r. openAIModelToDLLM model source = Inr r \<and>
        tags r = [utf16 ''stream'', utf16 ''chat''] \<and>
        set (tags r) = {utf16 ''stream'', utf16 ''chat''}) \<and>
   map_sum id tags (openAIModelToDLLM model source)
     = map_sum id tags (openAIModelToDLLM model' source')"
proof -
  obtain base where bf: "base_for knownBases (model_id model) = Some base"
    using base_for_knownBases by blast
  obtain r where r: "openAIModelToDLLM model source = Inr r"
      "tags r = [utf16 ''stream'', utf16 ''chat'']"
    using openAIModelToDLLM_Some [OF bf, of source] by blast
  obtain base' where bf': "base_for knownBases (model_id model') = Some base'"
    using base_for_knownBases by blast
  obtain r' where r': "openAIModelToDLLM model' source' = Inr r'"
      "tags r' = [utf16 ''stream'', utf16 ''chat'']"
    using openAIModelToDLLM_Some [OF bf', of source'] by blast
  have "set (tags r) = {utf16 ''stream'', utf16 ''chat''}"
    using r(2) by simp
  moreover have "map_sum id tags (openAIModelToDLLM model source)
     = map_sum id tags (openAIModelToDLLM model' source')"
    using r r' by simp
  ultimately show ?thesis
    using r by blast
qed

text \<open>
  C9. The alternative \<open>|| knownBases[knownBases.length - 1]\<close> is never evaluated: the
  last entry of the table has the empty \<open>id\<close>, every string starts with the empty
  string, so the scan itself finds an entry for every identifier, and that entry is
  the base.
\<close>

theorem fallback_branch_unreachable:
  "(\<exists>base. scan knownBases mid = Some base \<and> base_for knownBases mid = Some base) \<and>
   base_id (last knownBases) = utf16 '''' \<and>
   startsWith mid (utf16 '''')"
  using base_for_knownBases [of mid]
  by (simp add: knownBases_last utf16_Nil startsWith_Nil)

text \<open>
  An identifier matched by the last entry only need not be hidden: the identifier of
  one space is matched by no entry with a non-empty \<open>id\<close>, its trimmed suffix is
  empty, and the record is not hidden.
\<close>

theorem fallback_hidden_counterexample:
  "matched_only_by_fallback (utf16 '' '') \<and>
   map_sum id hidden
     (openAIModelToDLLM \<lparr>model_id = utf16 '' '', model_created = 1678752000\<rparr>
        \<lparr>source_id = utf16 ''openai''\<rparr>) = Inr False"
  by (simp add: matched_only_by_fallback_def openAIModelToDLLM_def openAIModelToDLLM_on_def
      base_for_def scan_def knownBases_def suffix_of_def slice_def trim_def isWhiteSpace_def
      startsWith_def utf16_def Let_def)

text \<open>
  C7. For every identifier matched by the last entry only (no entry with a non-empty
  \<open>id\<close> is a prefix of it), that entry is the base: the record has its description
  and context size, the label starts with its label \<open>?:\<close>, the suffix is the whole
  identifier trimmed, and \<open>hidden\<close> is true exactly when that trimmed identifier is
  non-empty. \<open>text-davinci-003\<close> is such an identifier: its suffix is
  \<open>text-davinci-003\<close>, it is hidden and its label is \<open>?: (text davinci 003)\<close>.
\<close>

theorem fallback_record:
  "(matched_only_by_fallback (model_id model) \<longrightarrow>
      (\<exists>r. base_for knownBases (model_id model) = Some (last knownBases) \<and>
           suffix_of (last knownBases) (model_id model) = trim (model_id model) \<and>
           openAIModelToDLLM model source = Inr r \<and>
           dllm_description r = utf16 ''Unknown, please let us know the ID'' \<and>
           contextTokens r = 4096 \<and>
           prefix (utf16 ''?:'') (dllm_label r) \<and>
           dllm_label r = utf16 ''?:'' @
             (if trim (model_id model) \<noteq> []
              then utf16 '' ('' @ trim (replaceAll (trim (model_id model)) hyphen space) @ utf16 '')''
              else []) \<and>
           hidden r = (trim (model_id model) \<noteq> []))) \<and>
   (model_id model = utf16 ''text-davinci-003'' \<longrightarrow>
      matched_only_by_fallback (model_id model) \<and>
      suffix_of (last knownBases) (model_id model) = utf16 ''text-davinci-003'' \<and>
      (\<exists>r. openAIModelToDLLM model source = Inr r \<and>
           hidden r = True \<and>
           prefix (utf16 ''?:'') (dllm_label r) \<and>
           dllm_label r = utf16 ''?: (text davinci 003)''))"
proof -
  have general: "\<exists>r. base_for knownBases (model_id model) = Some (last knownBases) \<and>
           suffix_of (last knownBases) (model_id model) = trim (model_id model) \<and>
           openAIModelToDLLM model source = Inr r \<and>
           dllm_description r = utf16 ''Unknown, please let us know the ID'' \<and>
           contextTokens r = 4096 \<and>
           prefix (utf16 ''?:'') (dllm_label r) \<and>
           dllm_label r = utf16 ''?:'' @
             (if trim (model_id model) \<noteq> []
              then utf16 '' ('' @ trim (replaceAll (trim (model_id model)) hyphen space) @ utf16 '')''
              else []) \<and>
           hidden r = (trim (model_id model) \<noteq> [])"
    if only: "matched_only_by_fallback (model_id model)"
  proof -
    have bf: "base_for knownBases (model_id model) = Some (last knownBases)"
      using only by (simp add: scan_only_fallback base_for_scan)
    obtain r where r: "openAIModelToDLLM model source = Inr r"
        "dllm_label r = base_label (last knownBases) @
           (if suffix_of (last knownBases) (model_id model) \<noteq> []
            then utf16 '' ('' @
              trim (replaceAll (suffix_of (last knownBases) (model_id model)) hyphen space) @
              utf16 '')''
            else utf16 '''')"
        "dllm_description r = base_description (last knownBases)"
        "contextTokens r = base_context (last knownBases)"
        "hidden r = (suffix_of (last knownBases) (model_id model) \<noteq> [])"
      using openAIModelToDLLM_Some [OF bf, of source] by blast
    have bl: "base_label (last knownBases) = utf16 ''?:''"
      by (simp add: last_knownBases)
    have lbl: "dllm_label r = utf16 ''?:'' @
             (if trim (model_id model) \<noteq> []
              then utf16 '' ('' @ trim (replaceAll (trim (model_id model)) hyphen space) @ utf16 '')''
              else [])"
      using r(2) unfolding suffix_of_fallback bl by (simp add: utf16_Nil)
    then have "prefix (utf16 ''?:'') (dllm_label r)"
      by simp
    moreover have "dllm_description r = utf16 ''Unknown, please let us know the ID''"
      using r(3) by (simp add: last_knownBases)
    moreover have "contextTokens r = 4096"
      using r(4) by (simp add: last_knownBases)
    moreover have "hidden r = (trim (model_id model) \<noteq> [])"
      using r(5) by (simp add: suffix_of_fallback)
    ultimately show ?thesis
      using bf r(1) lbl suffix_of_fallback by blast
  qed
  have particular: "matched_only_by_fallback (model_id model) \<and>
      suffix_of (last knownBases) (model_id model) = utf16 ''text-davinci-003'' \<and>
      (\<exists>r. openAIModelToDLLM model source = Inr r \<and>
           hidden r = True \<and>
           prefix (utf16 ''?:'') (dllm_label r) \<and>
           dllm_label r = utf16 ''?: (text davinci 003)'')"
    if m: "model_id model = utf16 ''text-davinci-003''"
  proof -
    have only: "matched_only_by_fallback (model_id model)"
      using m only_fallback_text_davinci_003 by simp
    have ne: "utf16 ''text-davinci-003'' \<noteq> []"
      by (simp add: utf16_def)
    have sfx: "suffix_of (last knownBases) (model_id model) = utf16 ''text-davinci-003''"
      using m by (simp add: suffix_of_fallback trim_text_davinci_003)
    obtain r where r: "openAIModelToDLLM model source = Inr r"
        "prefix (utf16 ''?:'') (dllm_label r)"
        "dllm_label r = utf16 ''?:'' @
             (if trim (model_id model) \<noteq> []
              then utf16 '' ('' @ trim (replaceAll (trim (model_id model)) hyphen space) @ utf16 '')''
              else [])"
        "hidden r = (trim (model_id model) \<noteq> [])"
      using general [OF only] by blast
    have "hidden r = True"
      using r(4) m ne by (simp add: trim_text_davinci_003)
    moreover have "dllm_label r = utf16 ''?: (text davinci 003)''"
      using r(3) m ne by (simp add: trim_text_davinci_003 label_text_davinci_003)
    ultimately show ?thesis
      using only sfx r(1,2) by blast
  qed
  show ?thesis
    using general particular by blast
qed

theorem fallback_record_witness:
  "matched_only_by_fallback (utf16 ''text-davinci-003'') \<and>
   (\<exists>r. openAIModelToDLLM \<lparr>model_id = utf16 ''text-davinci-003'', model_created = 1669599635\<rparr>
          \<lparr>source_id = utf16 ''openai''\<rparr> = Inr r \<and>
        hidden r = True \<and>
        contextTokens r = 4096 \<and>
        dllm_description r = utf16 ''Unknown, please let us know the ID'' \<and>
        dllm_label r = utf16 ''?: (text davinci 003)'')"
  using fallback_record
    [of "\<lparr>model_id = utf16 ''text-davinci-003'', model_created = 1669599635\<rparr>"
        "\<lparr>source_id = utf16 ''openai''\<rparr>"]
  by auto

text \<open>
  The text between the parentheses can be empty although the record is hidden: for
  \<open>gpt-4-\<close> the base is \<open>GPT-4\<close>, the suffix is one hyphen, and the label is
  \<open>GPT-4 ()\<close>.
\<close>

theorem label_hidden_counterexample:
  "map_option base_label (base_for knownBases (utf16 ''gpt-4-'')) = Some (utf16 ''GPT-4'') \<and>
   map_sum id hidden
     (openAIModelToDLLM \<lparr>model_id = utf16 ''gpt-4-'', model_created = 1678752000\<rparr>
        \<lparr>source_id = utf16 ''openai''\<rparr>) = Inr True \<and>
   map_sum id dllm_label
     (openAIModelToDLLM \<lparr>model_id = utf16 ''gpt-4-'', model_created = 1678752000\<rparr>
        \<lparr>source_id = utf16 ''openai''\<rparr>) = Inr (utf16 ''GPT-4 ()'') \<and>
   parenthesized (utf16 ''GPT-4'') (utf16 ''GPT-4 ()'') = Some []"
  by (simp add: openAIModelToDLLM_def openAIModelToDLLM_on_def parenthesized_def
      base_for_def scan_def knownBases_def suffix_of_def slice_def trim_def isWhiteSpace_def
      replaceAll_def hyphen_def space_def startsWith_def utf16_def Let_def)

text \<open>
  C10. Every record links label and \<open>hidden\<close>: \<open>hidden\<close> is false if and only if
  the label is the matched base's label. When \<open>hidden\<close> is true the suffix is
  non-empty and the label is strictly longer than the base label: the base label,
  a space, and in parentheses the suffix with hyphens replaced by spaces, trimmed.
  That text is non-empty exactly when the suffix has a code unit that is neither a
  hyphen nor white space.
\<close>

theorem label_hidden_invariant:
  "\<exists>base r.
      base_for knownBases (model_id model) = Some base \<and>
      openAIModelToDLLM model source = Inr r \<and>
      hidden r = (suffix_of base (model_id model) \<noteq> []) \<and>
      (hidden r = False \<longleftrightarrow> dllm_label r = base_label base) \<and>
      (hidden r = True \<longrightarrow>
         prefix (base_label base) (dllm_label r) \<and>
         length (base_label base) < length (dllm_label r) \<and>
         parenthesized (base_label base) (dllm_label r)
           = Some (trim (replaceAll (suffix_of base (model_id model)) hyphen space)) \<and>
         (trim (replaceAll (suffix_of base (model_id model)) hyphen space) \<noteq> [] \<longleftrightarrow>
            (\<exists>c\<in>set (suffix_of base (model_id model)). c \<noteq> hyphen \<and> \<not> isWhiteSpace c)))"
proof -
  obtain base where bf: "base_for knownBases (model_id model) = Some base"
    using base_for_knownBases by blast
  let ?sfx = "suffix_of base (model_id model)"
  let ?t = "trim (replaceAll ?sfx hyphen space)"
  obtain r where r: "openAIModelToDLLM model source = Inr r"
      "dllm_label r = base_label base @
         (if ?sfx \<noteq> [] then utf16 '' ('' @ ?t @ utf16 '')'' else utf16 '''')"
      "hidden r = (?sfx \<noteq> [])"
    using openAIModelToDLLM_Some [OF bf, of source] by blast
  have ne: "utf16 '' ('' @ ?t @ utf16 '')'' \<noteq> []"
    by (simp add: utf16_def)
  have 1: "hidden r = False \<longleftrightarrow> dllm_label r = base_label base"
    using r(2,3) ne by (simp add: utf16_Nil)
  have 2: "prefix (base_label base) (dllm_label r)"
    using r(2) by simp
  have 3: "length (base_label base) < length (dllm_label r)" if "hidden r = True"
    using that r(2,3) by (simp add: utf16_def)
  have 4: "parenthesized (base_label base) (dllm_label r) = Some ?t" if "hidden r = True"
    using that r(2,3) by (simp add: parenthesized_label)
  have 5: "?t \<noteq> [] \<longleftrightarrow> (\<exists>c\<in>set ?sfx. c \<noteq> hyphen \<and> \<not> isWhiteSpace c)"
    unfolding label_text_Nil_iff by blast
  show ?thesis
    using bf r(1,3) 1 2 3 4 5 by blast
qed

theorem label_hidden_invariant_witness:
  "\<exists>r. openAIModelToDLLM \<lparr>model_id = utf16 ''gpt-4-0314'', model_created = 1678752000\<rparr>
          \<lparr>source_id = utf16 ''openai''\<rparr> = Inr r \<and>
       hidden r = True \<and>
       parenthesized (utf16 ''GPT-4'') (dllm_label r) = Some (utf16 ''0314'')"
proof -
  let ?m = "\<lparr>model_id = utf16 ''gpt-4-0314'', model_created = 1678752000\<rparr>"
  let ?s = "\<lparr>source_id = utf16 ''openai''\<rparr>"
  obtain base r where br: "base_for knownBases (model_id ?m) = Some base"
      "openAIModelToDLLM ?m ?s = Inr r"
      "hidden r = (suffix_of base (model_id ?m) \<noteq> [])"
      "hidden r = True \<longrightarrow>
         parenthesized (base_label base) (dllm_label r)
           = Some (trim (replaceAll (suffix_of base (model_id ?m)) hyphen space))"
    using label_hidden_invariant [of ?m ?s] by blast
  have base: "base = knownBases ! 1"
    using br(1) base_for_gpt_4_0314 by simp
  have sfx: "suffix_of base (model_id ?m) = utf16 ''-0314''"
    using base suffix_of_gpt_4_0314 by simp
  have "utf16 ''-0314'' \<noteq> []"
    by (simp add: utf16_def)
  then have h: "hidden r = True"
    using br(3) sfx by simp
  have "base_label base = utf16 ''GPT-4''"
    using base by (simp add: knownBases_def)
  then have "parenthesized (utf16 ''GPT-4'') (dllm_label r) = Some (utf16 ''0314'')"
    using br(4) h sfx by (simp add: label_text_0314)
  with br(2) h show ?thesis by blast
qed

end
